theory Spec2Isabelle
  imports Main
begin

section \<open>The Notifier Bridge: the NotifyLambda handler\<close>

text \<open>
  The handler is the inline Python of the resource
  \<^verbatim>\<open>BeamTaxiConsumerBuildPipelineNotifyLambdaEB7E94E5\<close> of
  \<^verbatim>\<open>cdk/cdk.out/BeamTaxiCount-Build.template.json\<close>:
  \<^verbatim>\<open>
  def handler(event, context):
      job_id = event['CodePipeline.job']['id']

      url = os.environ['waitHandleUrl']
      headers = { "Content-Type": "" }
      data = { "Status": "SUCCESS", "Reason": "Compilation Succeeded",
               "UniqueId": job_id, "Data": "Compilation Succeeded" }

      try:
          req = urllib.request.Request(url, headers=headers,
                  data=bytes(json.dumps(data), encoding="utf-8"), method='PUT')
          response = urllib.request.urlopen(req)

          code_pipeline.put_job_success_result(jobId=job_id)
      except Exception as e:
          print("failure: " + str(e))
          code_pipeline.put_job_failure_result(jobId=job_id,
                  failureDetails={'message': str(e), 'type': 'JobFailed'})
  \<close>
  The function's \<open>Timeout\<close> is 10 seconds (line 302): a call that has not come
  back by then ends with the invocation being stopped. The handler returns the trace of
  its effects and how it ended.
\<close>

text \<open>
  An exception caught by \<open>except Exception\<close>: its class and the string \<open>str(e)\<close>
  gives for it.
\<close>

datatype exn = Exception (exn_class: string) (py_str: string)

text \<open>How a call, or the handler, ends.\<close>

datatype outcome =
    Returned
  | Raised exn
  | TimedOut

text \<open>
  A Python dict of strings is an association list in insertion order. The request keeps
  the dict \<open>data\<close> itself; its JSON encoding to bytes is not modelled.
\<close>

type_synonym dict = "(string \<times> string) list"

record request =
  req_url :: string
  req_headers :: dict
  req_data :: dict
  req_method :: string

text \<open>
  The three calls that leave the process. How each ends is decided outside the handler,
  so they are parameters of it. \<open>urlopen\<close> stands for building the \<open>Request\<close>
  and opening it: it returns on a success response and raises on anything else (no
  route, a malformed URL, an HTTP error status).
\<close>

record world =
  urlopen :: "request \<Rightarrow> outcome"
  put_job_success_result :: "string \<Rightarrow> outcome"
  put_job_failure_result :: "string \<Rightarrow> dict \<Rightarrow> outcome"

datatype effect =
    HttpRequest request
  | Print string
  | PutJobSuccessResult string
  | PutJobFailureResult string dict

type_synonym event = "string \<rightharpoonup> (string \<rightharpoonup> string)"

definition signal_data :: "string \<Rightarrow> dict" where
  "signal_data job_id =
     [(''Status'', ''SUCCESS''), (''Reason'', ''Compilation Succeeded''),
      (''UniqueId'', job_id), (''Data'', ''Compilation Succeeded'')]"

definition signal_request :: "string \<Rightarrow> string \<Rightarrow> request" where
  "signal_request url job_id =
     \<lparr>req_url = url, req_headers = [(''Content-Type'', '''')],
      req_data = signal_data job_id, req_method = ''PUT''\<rparr>"

definition failureDetails :: "exn \<Rightarrow> dict" where
  "failureDetails e = [(''message'', py_str e), (''type'', ''JobFailed'')]"

text \<open>
  A subscript on a dict without the key raises \<open>KeyError\<close>, whose string is the key
  quoted. The handler subscripts with three literal keys only.
\<close>

definition key_error_job :: exn where
  "key_error_job = Exception ''KeyError'' (CHR 0x27 # ''CodePipeline.job'' @ [CHR 0x27])"

definition key_error_id :: exn where
  "key_error_id = Exception ''KeyError'' (CHR 0x27 # ''id'' @ [CHR 0x27])"

definition key_error_url :: exn where
  "key_error_url = Exception ''KeyError'' (CHR 0x27 # ''waitHandleUrl'' @ [CHR 0x27])"

text \<open>\<open>job_id = event['CodePipeline.job']['id']\<close> and \<open>url = os.environ['waitHandleUrl']\<close>.\<close>

definition job_id_of :: "event \<Rightarrow> exn + string" where
  "job_id_of event =
     (case event ''CodePipeline.job'' of
        None \<Rightarrow> Inl key_error_job
      | Some job \<Rightarrow> (case job ''id'' of None \<Rightarrow> Inl key_error_id | Some job_id \<Rightarrow> Inr job_id))"

definition url_of :: "(string \<rightharpoonup> string) \<Rightarrow> exn + string" where
  "url_of environ =
     (case environ ''waitHandleUrl'' of None \<Rightarrow> Inl key_error_url | Some url \<Rightarrow> Inr url)"

text \<open>
  The body of \<open>try\<close>: the signal, then, only if it returned, the success report. It
  ends as the last call it made ends.
\<close>

definition try_clause :: "world \<Rightarrow> string \<Rightarrow> string \<Rightarrow> effect list \<times> outcome" where
  "try_clause w url job_id =
     (let req = signal_request url job_id in
      case urlopen w req of
        Returned \<Rightarrow>
          ([HttpRequest req, PutJobSuccessResult job_id], put_job_success_result w job_id)
      | Raised e \<Rightarrow> ([HttpRequest req], Raised e)
      | TimedOut \<Rightarrow> ([HttpRequest req], TimedOut))"

text \<open>The body of \<open>except\<close>: nothing catches what \<open>put_job_failure_result\<close> raises.\<close>

definition except_clause :: "world \<Rightarrow> string \<Rightarrow> exn \<Rightarrow> effect list \<times> outcome" where
  "except_clause w job_id e =
     ([Print (''failure: '' @ py_str e), PutJobFailureResult job_id (failureDetails e)],
      put_job_failure_result w job_id (failureDetails e))"

definition handler :: "world \<Rightarrow> (string \<rightharpoonup> string) \<Rightarrow> event \<Rightarrow> effect list \<times> outcome" where
  "handler w environ event =
     (case job_id_of event of
        Inl e \<Rightarrow> ([], Raised e)
      | Inr job_id \<Rightarrow>
     (case url_of environ of
        Inl e \<Rightarrow> ([], Raised e)
      | Inr url \<Rightarrow>
     (case try_clause w url job_id of
        (tr, Raised e) \<Rightarrow>
          (case except_clause w job_id e of (tr', r) \<Rightarrow> (tr @ tr', r))
      | (tr, r) \<Rightarrow> (tr, r))))"

text \<open>Views of a trace: the signals to the gate, the job reports, everything outbound.\<close>

fun signal_attempts :: "effect list \<Rightarrow> request list" where
  "signal_attempts [] = []"
| "signal_attempts (HttpRequest r # tr) = r # signal_attempts tr"
| "signal_attempts (_ # tr) = signal_attempts tr"

fun is_report :: "effect \<Rightarrow> bool" where
  "is_report (PutJobSuccessResult _) = True"
| "is_report (PutJobFailureResult _ _) = True"
| "is_report _ = False"

definition job_reports :: "effect list \<Rightarrow> effect list" where
  "job_reports tr = filter is_report tr"

fun is_outbound :: "effect \<Rightarrow> bool" where
  "is_outbound (Print _) = False"
| "is_outbound _ = True"

definition outbound :: "effect list \<Rightarrow> effect list" where
  "outbound tr = filter is_outbound tr"

section \<open>The synthesized template\<close>

text \<open>
  \<^verbatim>\<open>cdk/cdk.out/BeamTaxiCount-Build.template.json\<close> is data: resources with
  properties, whose values are literals or references (\<open>{"Ref": id}\<close>) to a parameter
  or another resource. A reference is resolved by the deployment, which is a parameter
  \<open>\<rho>\<close> here: the value each logical id stands for.
\<close>

datatype cfn_value = Lit string | Ref string

fun resolve :: "(string \<Rightarrow> string) \<Rightarrow> cfn_value \<Rightarrow> string" where
  "resolve \<rho> (Lit s) = s"
| "resolve \<rho> (Ref n) = \<rho> n"

definition resolve_all :: "(string \<Rightarrow> string) \<Rightarrow> (string \<times> cfn_value) list \<Rightarrow> dict" where
  "resolve_all \<rho> kvs = map (\<lambda>(k, v). (k, resolve \<rho> v)) kvs"

definition WaitHandle :: string where
  "WaitHandle = ''BeamTaxiConsumerBuildPipelineWaitHandle410EECC2''"

definition NotifyLambda :: string where
  "NotifyLambda = ''BeamTaxiConsumerBuildPipelineNotifyLambdaEB7E94E5''"

definition MyProject :: string where
  "MyProject = ''BeamTaxiConsumerBuildPipelineMyProjectA087020D''"

definition MyPipeline :: string where
  "MyPipeline = ''BeamTaxiConsumerBuildPipelineMyPipeline9ECC2268''"

definition Bucket :: string where
  "Bucket = ''Bucket83908E77''"

text \<open>\<open>AWS::CloudFormation::WaitCondition\<close>, lines 197-209.\<close>

record wait_condition =
  wc_count :: nat
  wc_handle :: cfn_value
  wc_timeout :: string

definition WaitCondition :: wait_condition where
  "WaitCondition = \<lparr>wc_count = 1, wc_handle = Ref WaitHandle, wc_timeout = ''300''\<rparr>"

text \<open>
  \<open>AWS::Lambda::Function\<close>, lines 281-311: its code is \<^const>\<open>handler\<close>; the
  template gives it one environment variable.
\<close>

definition NotifyLambda_variables :: "(string \<times> cfn_value) list" where
  "NotifyLambda_variables = [(''waitHandleUrl'', Ref WaitHandle)]"

text \<open>\<open>AWS::CodePipeline::Pipeline\<close>, lines 453-582: three stages, four actions.\<close>

record action_decl =
  act_name :: string
  act_category :: string
  act_owner :: string
  act_provider :: string
  act_configuration :: "(string \<times> cfn_value) list"
  act_inputs :: "string list"
  act_outputs :: "string list"
  act_run_order :: nat

record stage_decl =
  stage_name :: string
  stage_actions :: "action_decl list"

definition SourceAction :: action_decl where
  "SourceAction =
     \<lparr>act_name = ''SourceAction'', act_category = ''Source'', act_owner = ''ThirdParty'',
      act_provider = ''GitHub'',
      act_configuration =
        [(''Owner'', Lit ''aws-samples''),
         (''Repo'', Lit ''amazon-kinesis-analytics-beam-taxi-consumer''),
         (''Branch'', Lit ''master''),
         (''OAuthToken'', Ref ''GithubOauthToken''),
         (''PollForSourceChanges'', Lit ''false'')],
      act_inputs = [], act_outputs = [''Artifact_Source_SourceAction''], act_run_order = 1\<rparr>"

definition BuildAction :: action_decl where
  "BuildAction =
     \<lparr>act_name = ''BuildAction'', act_category = ''Build'', act_owner = ''AWS'',
      act_provider = ''CodeBuild'',
      act_configuration = [(''ProjectName'', Ref MyProject)],
      act_inputs = [''Artifact_Source_SourceAction''],
      act_outputs = [''Artifact_Build_BuildAction''], act_run_order = 1\<rparr>"

definition CopyAction :: action_decl where
  "CopyAction =
     \<lparr>act_name = ''CopyAction'', act_category = ''Deploy'', act_owner = ''AWS'',
      act_provider = ''S3'',
      act_configuration = [(''BucketName'', Ref Bucket), (''Extract'', Lit ''true'')],
      act_inputs = [''Artifact_Build_BuildAction''], act_outputs = [], act_run_order = 1\<rparr>"

definition InvokeAction :: action_decl where
  "InvokeAction =
     \<lparr>act_name = ''InvokeAction'', act_category = ''Invoke'', act_owner = ''AWS'',
      act_provider = ''Lambda'',
      act_configuration = [(''FunctionName'', Ref NotifyLambda)],
      act_inputs = [], act_outputs = [], act_run_order = 2\<rparr>"

definition Stages :: "stage_decl list" where
  "Stages =
     [\<lparr>stage_name = ''Source'', stage_actions = [SourceAction]\<rparr>,
      \<lparr>stage_name = ''Build'', stage_actions = [BuildAction]\<rparr>,
      \<lparr>stage_name = ''Copy'', stage_actions = [CopyAction, InvokeAction]\<rparr>]"

text \<open>\<open>AWS::CodePipeline::Webhook\<close>, lines 583-608.\<close>

record webhook_decl =
  wh_authentication :: string
  wh_secret_token :: cfn_value
  wh_filters :: "(string \<times> string) list"
  wh_target_action :: string
  wh_target_pipeline :: cfn_value

definition Webhook :: webhook_decl where
  "Webhook =
     \<lparr>wh_authentication = ''GITHUB_HMAC'',
      wh_secret_token = Ref ''GithubOauthToken'',
      wh_filters = [(''$.ref'', ''refs/heads/{Branch}'')],
      wh_target_action = ''SourceAction'',
      wh_target_pipeline = Ref MyPipeline\<rparr>"

text \<open>The declaration of an action, by name, and its configuration with references resolved.\<close>

definition find_action :: "string \<Rightarrow> action_decl option" where
  "find_action n = find (\<lambda>a. act_name a = n) (concat (map stage_actions Stages))"

definition action_configuration :: "(string \<Rightarrow> string) \<Rightarrow> string \<Rightarrow> string \<rightharpoonup> string" where
  "action_configuration \<rho> n =
     (case find_action n of
        None \<Rightarrow> Map.empty
      | Some a \<Rightarrow> map_of (resolve_all \<rho> (act_configuration a)))"

section \<open>The Pipeline Orchestrator\<close>

text \<open>
  An execution of the pipeline: the outcome of each action the pipeline hands to another
  service (the checkout, the build, the copy), by action name, and the handle of the job
  it creates for the \<open>Invoke\<close> action. The event it sends the function carries that
  handle, and the function's environment is the template's.
\<close>

record execution =
  action_succeeds :: "string \<Rightarrow> bool"
  job_handle :: string

definition job_event :: "string \<Rightarrow> event" where
  "job_event job_id = [''CodePipeline.job'' \<mapsto> [''id'' \<mapsto> job_id]]"

definition lambda_environ :: "(string \<Rightarrow> string) \<Rightarrow> string \<rightharpoonup> string" where
  "lambda_environ \<rho> = map_of (resolve_all \<rho> NotifyLambda_variables)"

type_synonym run_log = "(string \<times> effect list) list"

text \<open>
  Modelled from the spec: the engine that executes the pipeline declared by
  \<^const>\<open>Stages\<close> is the pipeline service, which is not among the sources; only the
  declaration is. Section 4.3: the Notifier Bridge is invoked with the job handle and
  "reports its own success/failure back to the orchestrator". An action of provider
  \<open>Lambda\<close> whose \<open>FunctionName\<close> is the notify function invokes
  \<^const>\<open>handler\<close> once and succeeds when a success report for its job was made and
  accepted; the outcome of every other action is the execution's.
\<close>

definition run_action :: "world \<Rightarrow> (string \<Rightarrow> string) \<Rightarrow> execution \<Rightarrow> action_decl
    \<Rightarrow> (string \<times> effect list) \<times> bool" where
  "run_action w \<rho> ex a =
     (if act_provider a = ''Lambda'' then
        (if map_of (act_configuration a) ''FunctionName'' = Some (Ref NotifyLambda) then
           (case handler w (lambda_environ \<rho>) (job_event (job_handle ex)) of
              (tr, _) \<Rightarrow>
                ((act_name a, tr),
                 PutJobSuccessResult (job_handle ex) \<in> set tr \<and>
                 put_job_success_result w (job_handle ex) = Returned))
         else ((act_name a, []), False))
      else ((act_name a, []), action_succeeds ex (act_name a)))"

text \<open>
  Modelled from the spec: section 4.2, the Notify stage "always runs, regardless of
  upstream success or failure". In the declaration the Notifier Bridge is the action
  that invokes the notify function.
\<close>

definition is_notify :: "action_decl \<Rightarrow> bool" where
  "is_notify a =
     (act_provider a = ''Lambda'' \<and>
      map_of (act_configuration a) ''FunctionName'' = Some (Ref NotifyLambda))"

text \<open>
  Modelled from the spec: section 4.2, "transitions are strictly sequential" and "any
  stage failure halts forward progress (no stage after the failed one except Notify
  executes), and the terminal status recorded is failed". The flag \<open>up\<close> tells
  whether everything upstream succeeded. The actions of one \<open>RunOrder\<close> run
  together: each runs if \<open>up\<close> holds or it is the Notify action, and the orders after
  it are upstream-failed as soon as one of them fails.
\<close>

fun run_group :: "world \<Rightarrow> (string \<Rightarrow> string) \<Rightarrow> execution \<Rightarrow> bool \<Rightarrow> action_decl list
    \<Rightarrow> run_log \<times> bool" where
  "run_group w \<rho> ex up [] = ([], True)"
| "run_group w \<rho> ex up (a # as) =
     (case run_group w \<rho> ex up as of
        (log, oks) \<Rightarrow>
          (if up \<or> is_notify a then
             (case run_action w \<rho> ex a of (entry, ok) \<Rightarrow> (entry # log, ok \<and> oks))
           else (log, oks)))"

fun run_groups :: "world \<Rightarrow> (string \<Rightarrow> string) \<Rightarrow> execution \<Rightarrow> bool \<Rightarrow> action_decl list list
    \<Rightarrow> run_log \<times> bool" where
  "run_groups w \<rho> ex up [] = ([], up)"
| "run_groups w \<rho> ex up (g # gs) =
     (case run_group w \<rho> ex up g of
        (log, ok) \<Rightarrow>
          (case run_groups w \<rho> ex (up \<and> ok) gs of (log', ok') \<Rightarrow> (log @ log', ok')))"

definition groups_of :: "stage_decl \<Rightarrow> action_decl list list" where
  "groups_of s =
     map (\<lambda>n. filter (\<lambda>a. act_run_order a = n) (stage_actions s))
       (sort (remdups (map act_run_order (stage_actions s))))"

text \<open>
  Modelled from the spec: section 4.2, "a stage only starts once its predecessor
  succeeded", Notify excepted: after a failed stage the later stages are entered with
  \<open>up\<close> false, so of their actions only Notify runs. The result is the log and whether
  the execution succeeded.
\<close>

fun run_stages :: "world \<Rightarrow> (string \<Rightarrow> string) \<Rightarrow> execution \<Rightarrow> bool \<Rightarrow> stage_decl list
    \<Rightarrow> run_log \<times> bool" where
  "run_stages w \<rho> ex up [] = ([], up)"
| "run_stages w \<rho> ex up (s # ss) =
     (case run_groups w \<rho> ex up (groups_of s) of
        (log, ok) \<Rightarrow>
          (case run_stages w \<rho> ex ok ss of (log', ok') \<Rightarrow> (log @ log', ok')))"

definition run_pipeline :: "world \<Rightarrow> (string \<Rightarrow> string) \<Rightarrow> execution \<Rightarrow> run_log \<times> bool" where
  "run_pipeline w \<rho> ex = run_stages w \<rho> ex True Stages"

text \<open>Views of a run: the actions executed, in order, and the signals sent to the gate.\<close>

definition executed :: "run_log \<Rightarrow> string list" where
  "executed log = map fst log"

definition gate_signals :: "run_log \<Rightarrow> request list" where
  "gate_signals log = concat (map (\<lambda>entry. signal_attempts (snd entry)) log)"

section \<open>The Completion Gate\<close>

text \<open>The timeout of \<^const>\<open>WaitCondition\<close> is a decimal string.\<close>

definition digit :: "char \<Rightarrow> nat option" where
  "digit c = (let n = (of_char c :: nat) in if 48 \<le> n \<and> n \<le> 57 then Some (n - 48) else None)"

fun decimal_from :: "nat \<Rightarrow> string \<Rightarrow> nat option" where
  "decimal_from n [] = Some n"
| "decimal_from n (c # cs) =
     (case digit c of None \<Rightarrow> None | Some d \<Rightarrow> decimal_from (10 * n + d) cs)"

definition decimal :: "string \<Rightarrow> nat option" where
  "decimal s = (if s = [] then None else decimal_from 0 s)"

datatype status = SUCCESS | FAILURE

record signal =
  sig_status :: status
  sig_reason :: string
  sig_unique_id :: string
  sig_data :: string

datatype gate_state = Waiting | Fired signal | Expired

record gate =
  g_timeout :: nat
  g_elapsed :: nat
  g_state :: gate_state

datatype gate_event = Signal signal | Tick

datatype gate_reply = Recorded | Ignored

definition new_gate :: "nat \<Rightarrow> gate" where
  "new_gate t = \<lparr>g_timeout = t, g_elapsed = 0, g_state = Waiting\<rparr>"

text \<open>The gate the template declares, when its timeout is a number.\<close>

definition deployed_gate :: "gate option" where
  "deployed_gate = map_option new_gate (decimal (wc_timeout WaitCondition))"

text \<open>
  Modelled from the spec: the transitions of the gate that \<^const>\<open>WaitCondition\<close>
  declares belong to the provisioning service, which is not among the sources; the
  template gives the gate's count, handle and timeout only. Section 4.4: the state is
  \<open>waiting\<close>, \<open>fired\<close> or \<open>expired\<close>; the first signal received while waiting
  fires the gate and is recorded verbatim; the gate expires "when the configured timeout
  elapses while still waiting"; "once in any terminal state, the gate ignores further
  signals without error". Time is counted in \<open>Tick\<close>s, one per time unit.
\<close>

fun gate_step :: "gate \<Rightarrow> gate_event \<Rightarrow> gate" where
  "gate_step g (Signal s) =
     (case g_state g of Waiting \<Rightarrow> g\<lparr>g_state := Fired s\<rparr> | _ \<Rightarrow> g)"
| "gate_step g Tick =
     (case g_state g of
        Waiting \<Rightarrow>
          (if g_timeout g \<le> Suc (g_elapsed g)
           then g\<lparr>g_elapsed := Suc (g_elapsed g), g_state := Expired\<rparr>
           else g\<lparr>g_elapsed := Suc (g_elapsed g)\<rparr>)
      | _ \<Rightarrow> g)"

fun gate_run :: "gate \<Rightarrow> gate_event list \<Rightarrow> gate" where
  "gate_run g [] = g"
| "gate_run g (ev # evs) = gate_run (gate_step g ev) evs"

text \<open>
  Modelled from the spec: what each signal of a run is answered; section 4.4, a signal to
  a gate in a terminal state is ignored "without error".
\<close>

fun gate_replies :: "gate \<Rightarrow> gate_event list \<Rightarrow> gate_reply list" where
  "gate_replies g [] = []"
| "gate_replies g (Signal s # evs) =
     (if g_state g = Waiting then Recorded else Ignored) # gate_replies (gate_step g (Signal s)) evs"
| "gate_replies g (Tick # evs) = gate_replies (gate_step g Tick) evs"

fun is_signal :: "gate_event \<Rightarrow> bool" where
  "is_signal (Signal _) = True"
| "is_signal Tick = False"

text \<open>
  Modelled from the spec: what the blocked caller sees, section 4.4: \<open>expired\<close> "is
  treated by the blocked caller identically to \<open>fired(failure)\<close>".
\<close>

fun terminal_status :: "gate_state \<Rightarrow> status option" where
  "terminal_status Waiting = None"
| "terminal_status (Fired s) = Some (sig_status s)"
| "terminal_status Expired = Some FAILURE"

section \<open>Source Intake: the webhook\<close>

text \<open>
  Modelled from the spec: section 6, the listener "matches \<open>ref\<close> against
  \<open>refs/heads/<configured branch>\<close>". A filter's \<open>MatchEquals\<close> names a key of the
  target action's configuration in braces, and the key is replaced by its value. The
  second argument is the key being read, if a brace is open.
\<close>

fun expand :: "(string \<rightharpoonup> string) \<Rightarrow> string option \<Rightarrow> string \<Rightarrow> string" where
  "expand cfg None [] = []"
| "expand cfg (Some k) [] = CHR ''{'' # k"
| "expand cfg None (c # cs) =
     (if c = CHR ''{'' then expand cfg (Some []) cs else c # expand cfg None cs)"
| "expand cfg (Some k) (c # cs) =
     (if c = CHR ''}'' then
        (case cfg k of Some v \<Rightarrow> v | None \<Rightarrow> CHR ''{'' # k @ ''}'') @ expand cfg None cs
      else expand cfg (Some (k @ [c])) cs)"

text \<open>
  A notification: the raw body, the signature sent with it, and the top-level string
  fields of the body read as JSON.
\<close>

record notification =
  nt_body :: string
  nt_signature :: string
  nt_json :: "string \<rightharpoonup> string"

definition json_path :: "string \<Rightarrow> (string \<rightharpoonup> string) \<Rightarrow> string option" where
  "json_path p j = (if take 2 p = ''$.'' then j (drop 2 p) else None)"

definition filter_matches :: "(string \<rightharpoonup> string) \<Rightarrow> (string \<rightharpoonup> string) \<Rightarrow> string \<times> string \<Rightarrow> bool" where
  "filter_matches cfg j f = (json_path (fst f) j = Some (expand cfg None (snd f)))"

text \<open>
  Modelled from the spec: the listener that \<^const>\<open>Webhook\<close> declares belongs to the
  pipeline service, which is not among the sources. Sections 4.1 and 6: a notification
  starts an execution when the "HMAC computed over the payload using a shared secret"
  equals its signature and its \<open>ref\<close> matches \<open>refs/heads/<configured branch>\<close>; any
  other is rejected. The HMAC function is a parameter; the secret and the filters are the
  declaration's.
\<close>

definition webhook_starts :: "(string \<Rightarrow> string \<Rightarrow> string) \<Rightarrow> (string \<Rightarrow> string) \<Rightarrow> notification \<Rightarrow> bool" where
  "webhook_starts hmac \<rho> nt =
     (wh_authentication Webhook = ''GITHUB_HMAC'' \<and>
      nt_signature nt = hmac (resolve \<rho> (wh_secret_token Webhook)) (nt_body nt) \<and>
      list_all (filter_matches (action_configuration \<rho> (wh_target_action Webhook)) (nt_json nt))
        (wh_filters Webhook))"

section \<open>The stack's parameters\<close>



datatype prop_value =
    Literal string
  | ParameterValue string
  | SecretParameter string
  | StackValue string

definition consumerBuild_props :: "(string \<times> prop_value) list" where
  "consumerBuild_props =
     [(''bucket'', StackValue ''bucket''),
      (''region'', StackValue ''region''),
      (''accountId'', StackValue ''account''),
      (''oauthToken'', SecretParameter ''GithubOauthToken''),
      (''repo'', Literal ''amazon-kinesis-analytics-beam-taxi-consumer''),
      (''owner'', ParameterValue ''GithubUser''),
      (''artifactPrefix'', Literal ''beam-taxi-count'')]"



text \<open>
  The configuration surface of the core. Of the properties the call above passes, four
  carry a value of the surface; \<open>bucket\<close>, \<open>region\<close> and \<open>accountId\<close> carry none.
\<close>

datatype config_parameter =
    RepoOwner | RepoName | Branch | SharedSecret | ArtifactNamePattern | BuildCommand
  | GateTimeout








section \<open>Concrete inputs\<close>

text \<open>A job event as the pipeline sends it, and the environment the template gives the function.\<close>

definition event0 :: event where
  "event0 = [''CodePipeline.job'' \<mapsto> [''id'' \<mapsto> ''job-42'']]"

definition environ0 :: "string \<rightharpoonup> string" where
  "environ0 = [''waitHandleUrl'' \<mapsto> ''https://gate.example/handle'']"

text \<open>An event without the job, as a test invocation would send.\<close>

definition event_no_job :: event where
  "event_no_job = Map.empty"

text \<open>
  Five networks: everything answers; the gate refuses the signal; the pipeline's API is
  unreachable; the pipeline's API throttles the success report only; the gate does not
  answer.
\<close>

definition world_ok :: world where
  "world_ok = \<lparr>urlopen = (\<lambda>_. Returned), put_job_success_result = (\<lambda>_. Returned),
      put_job_failure_result = (\<lambda>_ _. Returned)\<rparr>"

definition world_gate_down :: world where
  "world_gate_down =
     \<lparr>urlopen = (\<lambda>_. Raised (Exception ''HTTPError'' ''HTTP Error 403: Forbidden'')),
      put_job_success_result = (\<lambda>_. Returned), put_job_failure_result = (\<lambda>_ _. Returned)\<rparr>"

definition world_reports_down :: world where
  "world_reports_down =
     \<lparr>urlopen = (\<lambda>_. Returned),
      put_job_success_result =
        (\<lambda>_. Raised (Exception ''EndpointConnectionError'' ''Could not connect to the endpoint URL'')),
      put_job_failure_result =
        (\<lambda>_ _. Raised (Exception ''EndpointConnectionError'' ''Could not connect to the endpoint URL''))\<rparr>"

definition world_throttled :: world where
  "world_throttled =
     \<lparr>urlopen = (\<lambda>_. Returned),
      put_job_success_result = (\<lambda>_. Raised (Exception ''ClientError'' ''Rate exceeded'')),
      put_job_failure_result = (\<lambda>_ _. Returned)\<rparr>"

definition world_gate_silent :: world where
  "world_gate_silent = \<lparr>urlopen = (\<lambda>_. TimedOut), put_job_success_result = (\<lambda>_. Returned),
      put_job_failure_result = (\<lambda>_ _. Returned)\<rparr>"

text \<open>A deployment, and two executions: every external action succeeds; the build fails.\<close>

definition deployment0 :: "string \<Rightarrow> string" where
  "deployment0 n =
     (if n = WaitHandle then ''https://gate.example/handle''
      else if n = ''GithubOauthToken'' then ''token-1'' else n)"

definition execution_ok :: execution where
  "execution_ok = \<lparr>action_succeeds = (\<lambda>_. True), job_handle = ''job-42''\<rparr>"

definition execution_build_fails :: execution where
  "execution_build_fails =
     \<lparr>action_succeeds = (\<lambda>n. n \<noteq> ''BuildAction''), job_handle = ''job-42''\<rparr>"

text \<open>A stand-in for the HMAC, and a push to master signed with the deployment's token.\<close>

definition hmac0 :: "string \<Rightarrow> string \<Rightarrow> string" where
  "hmac0 key body = key @ '':'' @ body"

definition push_master :: notification where
  "push_master =
     \<lparr>nt_body = ''{ref: refs/heads/master}'',
      nt_signature = ''token-1:{ref: refs/heads/master}'',
      nt_json = [''ref'' \<mapsto> ''refs/heads/master'']\<rparr>"

definition signal0 :: signal where
  "signal0 = \<lparr>sig_status = SUCCESS, sig_reason = ''Compilation Succeeded'',
      sig_unique_id = ''job-42'', sig_data = ''Compilation Succeeded''\<rparr>"

definition signal1 :: signal where
  "signal1 = \<lparr>sig_status = FAILURE, sig_reason = ''Compilation Failed'',
      sig_unique_id = ''job-43'', sig_data = ''''\<rparr>"

section \<open>Properties of the handler\<close>

lemma event0_job_id: "job_id_of event0 = Inr ''job-42''"
  by (simp add: job_id_of_def event0_def)

lemma environ0_url: "url_of environ0 = Inr ''https://gate.example/handle''"
  by (simp add: url_of_def environ0_def)

lemma event_no_job_id: "job_id_of event_no_job = Inl key_error_job"
  by (simp add: job_id_of_def event_no_job_def)

text \<open>
  C9. Whatever the event, the environment and the network, every signal the handler
  attempts carries Status "SUCCESS", Reason "Compilation Succeeded" and Data
  "Compilation Succeeded"; none carries Status "FAILURE". The handler reads nothing of the
  execution but the job id.
\<close>

theorem handler_signal_constant:
  "\<forall>r \<in> set (signal_attempts (fst (handler w environ event))).
     map_of (req_data r) ''Status'' = Some ''SUCCESS'' \<and>
     map_of (req_data r) ''Reason'' = Some ''Compilation Succeeded'' \<and>
     map_of (req_data r) ''Data'' = Some ''Compilation Succeeded'' \<and>
     map_of (req_data r) ''Status'' \<noteq> Some ''FAILURE''"
  by (auto simp: handler_def try_clause_def except_clause_def signal_request_def signal_data_def
      Let_def split: sum.splits prod.splits outcome.splits)

theorem handler_signal_constant_witness:
  "signal_attempts (fst (handler world_gate_down environ0 event0)) =
     [signal_request ''https://gate.example/handle'' ''job-42''] \<and>
   map_of (req_data (signal_request ''https://gate.example/handle'' ''job-42'')) ''Status'' =
     Some ''SUCCESS'' \<and>
   map_of (req_data (signal_request ''https://gate.example/handle'' ''job-42'')) ''Reason'' =
     Some ''Compilation Succeeded'' \<and>
   map_of (req_data (signal_request ''https://gate.example/handle'' ''job-42'')) ''Data'' =
     Some ''Compilation Succeeded''"
  using handler_signal_constant [of world_gate_down environ0 event0]
  by (simp add: handler_def try_clause_def except_clause_def event0_job_id environ0_url
      world_gate_down_def)

text \<open>
  C3 as stated fails. With the signal returned and the success report raising, the
  handler reports success and then failure: a failure report is made although the signal
  returned. With the signal call not coming back, and on an event without the job, it
  makes no report at all.
\<close>

theorem handler_reports_failure_after_signal:
  "urlopen world_throttled (signal_request ''https://gate.example/handle'' ''job-42'') = Returned \<and>
   job_reports (fst (handler world_throttled environ0 event0)) =
     [PutJobSuccessResult ''job-42'',
      PutJobFailureResult ''job-42'' [(''message'', ''Rate exceeded''), (''type'', ''JobFailed'')]] \<and>
   job_reports (fst (handler world_throttled environ0 event0)) \<noteq> [PutJobSuccessResult ''job-42''] \<and>
   urlopen world_gate_silent (signal_request ''https://gate.example/handle'' ''job-42'') \<noteq> Returned \<and>
   job_reports (fst (handler world_gate_silent environ0 event0)) = [] \<and>
   job_reports (fst (handler world_ok environ0 event_no_job)) = []"
  by (simp add: handler_def try_clause_def except_clause_def event0_job_id environ0_url
      event_no_job_id world_throttled_def world_gate_silent_def job_reports_def
      failureDetails_def)

text \<open>
  C3, amended. The job reports of every invocation. None is made when the event carries
  no job id, when the gate's URL is not configured, or when the signal call does not come
  back. When the signal raised \<open>e\<close>, the one report is the failure report with
  \<open>{message: str(e), type: JobFailed}\<close>. When the signal returned, the success report is
  made, and if it raised \<open>e\<close> the failure report with \<open>{message: str(e), type:
  JobFailed}\<close> follows it.
\<close>

theorem handler_job_reports:
  "job_reports (fst (handler w environ event)) =
     (case job_id_of event of
        Inl _ \<Rightarrow> []
      | Inr job_id \<Rightarrow>
     (case url_of environ of
        Inl _ \<Rightarrow> []
      | Inr url \<Rightarrow>
     (case urlopen w (signal_request url job_id) of
        TimedOut \<Rightarrow> []
      | Raised e \<Rightarrow>
          [PutJobFailureResult job_id [(''message'', py_str e), (''type'', ''JobFailed'')]]
      | Returned \<Rightarrow>
          (case put_job_success_result w job_id of
             Returned \<Rightarrow> [PutJobSuccessResult job_id]
           | TimedOut \<Rightarrow> [PutJobSuccessResult job_id]
           | Raised e \<Rightarrow>
               [PutJobSuccessResult job_id,
                PutJobFailureResult job_id
                  [(''message'', py_str e), (''type'', ''JobFailed'')]]))))"
  by (simp add: handler_def try_clause_def except_clause_def job_reports_def failureDetails_def
      Let_def split: sum.splits outcome.splits)

theorem handler_job_reports_witness:
  "job_reports (fst (handler world_gate_down environ0 event0)) =
     [PutJobFailureResult ''job-42''
        [(''message'', ''HTTP Error 403: Forbidden''), (''type'', ''JobFailed'')]]"
  using handler_job_reports [of world_gate_down environ0 event0]
  by (simp add: event0_job_id environ0_url world_gate_down_def)

text \<open>
  C4 as stated fails. With the gate reachable and the pipeline's API unreachable, the
  handler makes two job reports (the success report raises inside \<open>try\<close>, so the
  failure report follows) and the exception of the second leaves the handler. With the
  signal call not coming back, no report follows the signal and the handler does not
  return. On an event without the job, a \<open>KeyError\<close> leaves the handler before any
  signal.
\<close>

theorem handler_two_reports_and_raises:
  "job_reports (fst (handler world_reports_down environ0 event0)) =
     [PutJobSuccessResult ''job-42'',
      PutJobFailureResult ''job-42''
        [(''message'', ''Could not connect to the endpoint URL''), (''type'', ''JobFailed'')]] \<and>
   snd (handler world_reports_down environ0 event0) =
     Raised (Exception ''EndpointConnectionError'' ''Could not connect to the endpoint URL'') \<and>
   \<not> (length (job_reports (fst (handler world_reports_down environ0 event0))) = 1 \<and>
      snd (handler world_reports_down environ0 event0) = Returned) \<and>
   outbound (fst (handler world_gate_silent environ0 event0)) =
     [HttpRequest (signal_request ''https://gate.example/handle'' ''job-42'')] \<and>
   snd (handler world_gate_silent environ0 event0) = TimedOut \<and>
   outbound (fst (handler world_ok environ0 event_no_job)) = [] \<and>
   snd (handler world_ok environ0 event_no_job) = Raised key_error_job"
  by (simp add: handler_def try_clause_def except_clause_def event0_job_id environ0_url
      event_no_job_id world_reports_down_def world_gate_silent_def job_reports_def
      outbound_def failureDetails_def)

text \<open>
  C4, amended. The outbound effects of every invocation, and how it ends. When the event
  carries no job id or the gate's URL is not configured, nothing is sent and the
  \<open>KeyError\<close> leaves the handler. Otherwise exactly one signal is attempted, first. If
  the signal call does not come back, nothing follows and the invocation is stopped. If
  it raised, the failure report alone follows. If it returned, the success report
  follows, and if that raised, the failure report follows the success report. Whenever
  the failure report is made, the handler ends as \<open>put_job_failure_result\<close> ends: it
  returns when that returns, and what that raises leaves the handler. Otherwise it ends
  as the success report ends.
\<close>

theorem handler_effects:
  "(outbound (fst (handler w environ event)), snd (handler w environ event)) =
     (case job_id_of event of
        Inl e \<Rightarrow> ([], Raised e)
      | Inr job_id \<Rightarrow>
     (case url_of environ of
        Inl e \<Rightarrow> ([], Raised e)
      | Inr url \<Rightarrow>
     (case urlopen w (signal_request url job_id) of
        TimedOut \<Rightarrow> ([HttpRequest (signal_request url job_id)], TimedOut)
      | Raised e \<Rightarrow>
          ([HttpRequest (signal_request url job_id),
            PutJobFailureResult job_id (failureDetails e)],
           put_job_failure_result w job_id (failureDetails e))
      | Returned \<Rightarrow>
          (case put_job_success_result w job_id of
             Returned \<Rightarrow>
               ([HttpRequest (signal_request url job_id), PutJobSuccessResult job_id], Returned)
           | TimedOut \<Rightarrow>
               ([HttpRequest (signal_request url job_id), PutJobSuccessResult job_id], TimedOut)
           | Raised e \<Rightarrow>
               ([HttpRequest (signal_request url job_id), PutJobSuccessResult job_id,
                 PutJobFailureResult job_id (failureDetails e)],
                put_job_failure_result w job_id (failureDetails e))))))"
  by (simp add: handler_def try_clause_def except_clause_def outbound_def Let_def
      split: sum.splits outcome.splits)

theorem handler_effects_witness:
  "outbound (fst (handler world_ok environ0 event0)) =
     [HttpRequest (signal_request ''https://gate.example/handle'' ''job-42''),
      PutJobSuccessResult ''job-42''] \<and>
   snd (handler world_ok environ0 event0) = Returned"
  using handler_effects [of world_ok environ0 event0]
  by (simp add: event0_job_id environ0_url world_ok_def)

section \<open>Properties of the pipeline\<close>

lemma groups_of_Stages:
  "map groups_of Stages = [[[SourceAction]], [[BuildAction]], [[CopyAction], [InvokeAction]]]"
  by (simp add: Stages_def groups_of_def SourceAction_def BuildAction_def CopyAction_def
      InvokeAction_def)

lemma run_action_external:
  "run_action w \<rho> ex SourceAction = ((''SourceAction'', []), action_succeeds ex ''SourceAction'')"
  "run_action w \<rho> ex BuildAction = ((''BuildAction'', []), action_succeeds ex ''BuildAction'')"
  "run_action w \<rho> ex CopyAction = ((''CopyAction'', []), action_succeeds ex ''CopyAction'')"
  by (simp_all add: run_action_def SourceAction_def BuildAction_def CopyAction_def)

lemma is_notify_actions:
  "\<not> is_notify SourceAction" "\<not> is_notify BuildAction" "\<not> is_notify CopyAction"
  "is_notify InvokeAction"
  by (simp_all add: is_notify_def SourceAction_def BuildAction_def CopyAction_def
      InvokeAction_def)

text \<open>Invoked by the pipeline, the handler finds the job id and the URL, and signals once.\<close>

lemma handler_job_event:
  "signal_attempts (fst (handler w (lambda_environ \<rho>) (job_event j))) =
     [signal_request (\<rho> WaitHandle) j]"
  by (simp add: handler_def job_id_of_def url_of_def lambda_environ_def job_event_def
      NotifyLambda_variables_def resolve_all_def try_clause_def except_clause_def Let_def
      split: outcome.splits)

lemma run_action_invoke:
  "fst (fst (run_action w \<rho> ex InvokeAction)) = ''InvokeAction''"
  "signal_attempts (snd (fst (run_action w \<rho> ex InvokeAction))) =
     [signal_request (\<rho> WaitHandle) (job_handle ex)]"
  using handler_job_event [of w \<rho> "job_handle ex"]
  by (auto simp: run_action_def InvokeAction_def split: prod.splits)

text \<open>
  The shape of a run: the checkout; the build if the checkout succeeded; the copy if
  both did; and the notify action in every case.
\<close>

lemma run_pipeline_unfold:
  "run_pipeline w \<rho> ex =
     ((''SourceAction'', []) #
      (if action_succeeds ex ''SourceAction'' then [(''BuildAction'', [])] else []) @
      (if action_succeeds ex ''SourceAction'' \<and> action_succeeds ex ''BuildAction''
       then [(''CopyAction'', [])] else []) @
      [fst (run_action w \<rho> ex InvokeAction)],
      action_succeeds ex ''SourceAction'' \<and> action_succeeds ex ''BuildAction'' \<and>
      action_succeeds ex ''CopyAction'' \<and> snd (run_action w \<rho> ex InvokeAction))"
proof -
  have g: "groups_of \<lparr>stage_name = ''Source'', stage_actions = [SourceAction]\<rparr> = [[SourceAction]]"
    "groups_of \<lparr>stage_name = ''Build'', stage_actions = [BuildAction]\<rparr> = [[BuildAction]]"
    "groups_of \<lparr>stage_name = ''Copy'', stage_actions = [CopyAction, InvokeAction]\<rparr> =
       [[CopyAction], [InvokeAction]]"
    using groups_of_Stages by (simp_all add: Stages_def)
  show ?thesis
    by (auto simp: run_pipeline_def Stages_def g run_action_external is_notify_actions
        split: prod.splits)
qed

text \<open>
  C1 as stated fails: in the execution whose build fails, the copy is skipped and the
  notify action runs once, but the one signal it sends has Status "SUCCESS", not
  "FAILURE".
\<close>

theorem build_failure_no_failure_signal:
  "\<not> action_succeeds execution_build_fails ''BuildAction'' \<and>
   executed (fst (run_pipeline world_ok deployment0 execution_build_fails)) =
     [''SourceAction'', ''BuildAction'', ''InvokeAction''] \<and>
   map (\<lambda>r. map_of (req_data r) ''Status'')
     (gate_signals (fst (run_pipeline world_ok deployment0 execution_build_fails))) =
     [Some ''SUCCESS''] \<and>
   map (\<lambda>r. map_of (req_data r) ''Status'')
     (gate_signals (fst (run_pipeline world_ok deployment0 execution_build_fails))) \<noteq>
     [Some ''FAILURE'']"
  by (simp add: run_pipeline_unfold execution_build_fails_def executed_def gate_signals_def
      run_action_invoke signal_request_def signal_data_def)

text \<open>
  C1, amended. In every execution whose build fails, the copy is skipped, the execution
  fails, and the notify action is executed exactly once and sends exactly one signal: a
  PUT to the gate's handle with Status "SUCCESS" and UniqueId the execution's job handle.
\<close>

theorem build_failure_notifies_success:
  assumes "\<not> action_succeeds ex ''BuildAction''"
  shows "count_list (executed (fst (run_pipeline w \<rho> ex))) ''InvokeAction'' = 1 \<and>
         map (\<lambda>r. (req_url r, req_method r, map_of (req_data r) ''Status'',
                   map_of (req_data r) ''UniqueId''))
           (gate_signals (fst (run_pipeline w \<rho> ex))) =
           [(\<rho> WaitHandle, ''PUT'', Some ''SUCCESS'', Some (job_handle ex))] \<and>
         ''CopyAction'' \<notin> set (executed (fst (run_pipeline w \<rho> ex))) \<and>
         \<not> snd (run_pipeline w \<rho> ex)"
  using assms
  by (simp add: run_pipeline_unfold executed_def gate_signals_def run_action_invoke
      signal_request_def signal_data_def)

theorem build_failure_notifies_success_witness:
  "\<not> action_succeeds execution_build_fails ''BuildAction'' \<and>
   count_list (executed (fst (run_pipeline world_ok deployment0 execution_build_fails)))
     ''InvokeAction'' = 1 \<and>
   map (\<lambda>r. (req_url r, req_method r, map_of (req_data r) ''Status'',
             map_of (req_data r) ''UniqueId''))
     (gate_signals (fst (run_pipeline world_ok deployment0 execution_build_fails))) =
     [(''https://gate.example/handle'', ''PUT'', Some ''SUCCESS'', Some ''job-42'')] \<and>
   ''CopyAction'' \<notin> set (executed (fst (run_pipeline world_ok deployment0 execution_build_fails))) \<and>
   \<not> snd (run_pipeline world_ok deployment0 execution_build_fails)"
proof -
  have b: "\<not> action_succeeds execution_build_fails ''BuildAction''"
    by (simp add: execution_build_fails_def)
  show ?thesis
    using build_failure_notifies_success [OF b, of world_ok deployment0] b
    by (simp add: deployment0_def execution_build_fails_def)
qed

text \<open>
  C2. In every execution whose checkout, build and copy succeed, the notify action is
  executed exactly once and sends exactly one signal: a PUT to the gate's handle with
  Status "SUCCESS" and UniqueId the execution's job handle.
\<close>

theorem success_signal:
  assumes "action_succeeds ex ''SourceAction''" and "action_succeeds ex ''BuildAction''"
    and "action_succeeds ex ''CopyAction''"
  shows "count_list (executed (fst (run_pipeline w \<rho> ex))) ''InvokeAction'' = 1 \<and>
         map (\<lambda>r. (req_url r, req_method r, map_of (req_data r) ''Status'',
                   map_of (req_data r) ''UniqueId''))
           (gate_signals (fst (run_pipeline w \<rho> ex))) =
           [(\<rho> WaitHandle, ''PUT'', Some ''SUCCESS'', Some (job_handle ex))]"
  using assms
  by (simp add: run_pipeline_unfold executed_def gate_signals_def run_action_invoke
      signal_request_def signal_data_def)

theorem success_signal_witness:
  "action_succeeds execution_ok ''SourceAction'' \<and> action_succeeds execution_ok ''BuildAction'' \<and>
   action_succeeds execution_ok ''CopyAction'' \<and>
   count_list (executed (fst (run_pipeline world_ok deployment0 execution_ok))) ''InvokeAction'' = 1 \<and>
   map (\<lambda>r. (req_url r, req_method r, map_of (req_data r) ''Status'',
             map_of (req_data r) ''UniqueId''))
     (gate_signals (fst (run_pipeline world_ok deployment0 execution_ok))) =
     [(''https://gate.example/handle'', ''PUT'', Some ''SUCCESS'', Some ''job-42'')]"
proof -
  have a: "action_succeeds execution_ok n" for n
    by (simp add: execution_ok_def)
  show ?thesis
    using success_signal [OF a a a, of world_ok deployment0] a
    by (simp add: deployment0_def execution_ok_def)
qed

section \<open>Properties of the gate\<close>

lemma gate_step_terminal: "g_state g \<noteq> Waiting \<Longrightarrow> gate_step g ev = g"
  by (cases ev; cases "g_state g") simp_all

lemma gate_run_terminal: "g_state g \<noteq> Waiting \<Longrightarrow> gate_run g evs = g"
  by (induction evs) (simp_all add: gate_step_terminal)

lemma gate_replies_terminal:
  "g_state g \<noteq> Waiting \<Longrightarrow>
     gate_replies g evs = replicate (length (filter is_signal evs)) Ignored"
proof (induction evs)
  case Nil
  then show ?case by simp
next
  case (Cons ev evs)
  then show ?case
    by (cases ev) (simp_all add: gate_step_terminal del: gate_step.simps)
qed

lemma gate_run_append: "gate_run g (xs @ ys) = gate_run (gate_run g xs) ys"
  by (induction xs arbitrary: g) simp_all

text \<open>While the timeout has not elapsed, a waiting gate only counts.\<close>

lemma gate_run_ticks:
  "g_state g = Waiting \<Longrightarrow> g_elapsed g + n < g_timeout g \<Longrightarrow>
     gate_run g (replicate n Tick) = g\<lparr>g_elapsed := g_elapsed g + n\<rparr>"
proof (induction n arbitrary: g)
  case 0
  then show ?case by simp
next
  case (Suc n)
  let ?g = "g\<lparr>g_elapsed := Suc (g_elapsed g)\<rparr>"
  have "gate_step g Tick = ?g"
    using Suc.prems by simp
  moreover have "gate_run ?g (replicate n Tick) = ?g\<lparr>g_elapsed := g_elapsed ?g + n\<rparr>"
    using Suc.prems by (intro Suc.IH) simp_all
  ultimately show ?case by simp
qed

lemma gate_still_waiting:
  "n < t \<Longrightarrow> g_state (gate_run (new_gate t) (replicate n Tick)) = Waiting"
  using gate_run_ticks [of "new_gate t" n] by (simp add: new_gate_def)

lemma gate_expires:
  assumes "0 < t"
  shows "g_state (gate_run (new_gate t) (replicate t Tick @ rest)) = Expired"
proof -
  obtain n where t: "t = Suc n"
    using assms by (cases t) simp_all
  have w: "gate_run (new_gate t) (replicate n Tick) = (new_gate t)\<lparr>g_elapsed := n\<rparr>"
    using gate_run_ticks [of "new_gate t" n] by (simp add: new_gate_def t)
  have "replicate t Tick @ rest = replicate n Tick @ Tick # rest"
    by (simp add: t replicate_app_Cons_same)
  then have "gate_run (new_gate t) (replicate t Tick @ rest) =
      gate_run (gate_step ((new_gate t)\<lparr>g_elapsed := n\<rparr>) Tick) rest"
    by (simp add: gate_run_append w)
  also have "gate_step ((new_gate t)\<lparr>g_elapsed := n\<rparr>) Tick =
      (new_gate t)\<lparr>g_elapsed := Suc n, g_state := Expired\<rparr>"
    by (simp add: new_gate_def t)
  also have "gate_run \<dots> rest = (new_gate t)\<lparr>g_elapsed := Suc n, g_state := Expired\<rparr>"
    by (rule gate_run_terminal) simp
  finally show ?thesis by simp
qed

lemma template_timeout: "decimal (wc_timeout WaitCondition) = Some 300"
  by (simp add: decimal_def WaitCondition_def digit_def)

text \<open>
  C5. A waiting gate that receives a signal and then any further events (signals of
  either status, in any order, with or without time passing) ends in the state the first
  signal alone leaves it in: fired with that signal, its status the terminal status.
  Every later signal is answered \<open>Ignored\<close>.
\<close>

theorem gate_first_signal_wins:
  assumes "g_state g = Waiting"
  shows "gate_run g (Signal s # evs) = gate_run g [Signal s] \<and>
         g_state (gate_run g (Signal s # evs)) = Fired s \<and>
         terminal_status (g_state (gate_run g (Signal s # evs))) = Some (sig_status s) \<and>
         gate_replies g (Signal s # evs) =
           Recorded # replicate (length (filter is_signal evs)) Ignored"
proof -
  have f: "gate_step g (Signal s) = g\<lparr>g_state := Fired s\<rparr>"
    using assms by simp
  have "gate_run (g\<lparr>g_state := Fired s\<rparr>) evs = g\<lparr>g_state := Fired s\<rparr>"
    by (rule gate_run_terminal) simp
  moreover have "gate_replies (g\<lparr>g_state := Fired s\<rparr>) evs =
      replicate (length (filter is_signal evs)) Ignored"
    by (rule gate_replies_terminal) simp
  ultimately show ?thesis
    using assms f by simp
qed

theorem gate_first_signal_wins_witness:
  "g_state (new_gate 300) = Waiting \<and>
   g_state (gate_run (new_gate 300) [Signal signal1, Signal signal0, Tick, Signal signal0]) =
     Fired signal1 \<and>
   terminal_status
     (g_state (gate_run (new_gate 300) [Signal signal1, Signal signal0, Tick, Signal signal0])) =
     Some FAILURE \<and>
   gate_replies (new_gate 300) [Signal signal1, Signal signal0, Tick, Signal signal0] =
     [Recorded, Ignored, Ignored]"
proof -
  have w: "g_state (new_gate 300) = Waiting"
    by (simp add: new_gate_def)
  show ?thesis
    using gate_first_signal_wins [OF w, of signal1 "[Signal signal0, Tick, Signal signal0]"] w
    by (simp add: signal1_def)
qed

text \<open>
  C6. The gate the template declares has a timeout of 300. Once 300 time units have
  passed with no signal, whatever comes after, it is expired: not waiting, and a failure
  to the caller.
\<close>

theorem gate_timeout_expires:
  "deployed_gate = Some (new_gate 300) \<and>
   g_state (gate_run (new_gate 300) (replicate 300 Tick @ rest)) = Expired \<and>
   g_state (gate_run (new_gate 300) (replicate 300 Tick @ rest)) \<noteq> Waiting \<and>
   terminal_status (g_state (gate_run (new_gate 300) (replicate 300 Tick @ rest))) = Some FAILURE"
  using gate_expires [of 300 rest] template_timeout by (simp add: deployed_gate_def)

section \<open>Properties of the webhook\<close>

lemma source_configuration:
  "action_configuration \<rho> ''SourceAction'' ''Branch'' = Some ''master''"
  "action_configuration \<rho> ''SourceAction'' ''OAuthToken'' = Some (\<rho> ''GithubOauthToken'')"
  by (simp_all add: action_configuration_def find_action_def Stages_def SourceAction_def
      resolve_all_def)

lemma expand_branch:
  "expand (action_configuration \<rho> ''SourceAction'') None ''refs/heads/{Branch}'' =
     ''refs/heads/master''"
  by (simp add: source_configuration)

text \<open>
  C7. A notification starts an execution exactly when its signature is the HMAC of its
  body under the value of the parameter \<open>GithubOauthToken\<close> and its \<open>ref\<close> is
  \<open>refs/heads/master\<close>; one that fails either check starts none.
\<close>

theorem webhook_starts_iff:
  "webhook_starts hmac \<rho> nt \<longleftrightarrow>
     nt_signature nt = hmac (\<rho> ''GithubOauthToken'') (nt_body nt) \<and>
     nt_json nt ''ref'' = Some ''refs/heads/master''"
  by (simp add: webhook_starts_def Webhook_def filter_matches_def json_path_def
      source_configuration)

theorem webhook_starts_iff_witness:
  "webhook_starts hmac0 deployment0 push_master \<and>
   \<not> webhook_starts hmac0 deployment0
       (push_master\<lparr>nt_signature := ''token-2:{ref: refs/heads/master}''\<rparr>) \<and>
   \<not> webhook_starts hmac0 deployment0
       (push_master\<lparr>nt_json := [''ref'' \<mapsto> ''refs/heads/feature-x'']\<rparr>)"
  using webhook_starts_iff [of hmac0 deployment0 push_master]
    webhook_starts_iff [of hmac0 deployment0
      "push_master\<lparr>nt_signature := ''token-2:{ref: refs/heads/master}''\<rparr>"]
    webhook_starts_iff [of hmac0 deployment0
      "push_master\<lparr>nt_json := [''ref'' \<mapsto> ''refs/heads/feature-x'']\<rparr>"]
  by (simp add: hmac0_def deployment0_def push_master_def WaitHandle_def)

text \<open>
  C10. Under every deployment, the webhook's secret token and the OAuth token of the
  source action it targets are the value of the one parameter \<open>GithubOauthToken\<close>,
  which the stack passes to the pipeline as \<open>oauthToken\<close>.
\<close>

theorem secret_is_oauth_token:
  "resolve \<rho> (wh_secret_token Webhook) = \<rho> ''GithubOauthToken'' \<and>
   action_configuration \<rho> (wh_target_action Webhook) ''OAuthToken'' =
     Some (resolve \<rho> (wh_secret_token Webhook)) \<and>
   map_of consumerBuild_props ''oauthToken'' = Some (SecretParameter ''GithubOauthToken'')"
  by (simp add: Webhook_def source_configuration consumerBuild_props_def)

section \<open>Properties of the configuration\<close>







end
